theory Spec2Isabelle
  imports Main "HOL-Library.AList"
begin

section \<open>The Meowstik URL-processing gateway (app.py)\<close>

text \<open>
  A shallow embedding of the Flask handler \<^verbatim>\<open>process_url\<close> of \<^verbatim>\<open>app.py\<close>. The handler
  reads the JSON body of a POST request, checks the \<^verbatim>\<open>url\<close> entry, fetches the URL
  with \<^verbatim>\<open>requests.get\<close> and answers with a JSON document and an HTTP status.

  The two libraries the handler calls (Flask for the inbound request, requests for
  the outbound fetch) and the clock are the environment: what they answer is an
  input of the model, what the handler asks of them is recorded in the world.
\<close>

subsection \<open>Python values\<close>

text \<open>
  Python floats as sign, mantissa and binary exponent, or one of the special values
  that \<^verbatim>\<open>json.loads\<close> accepts. Only the test against zero is used by the handler.
\<close>

datatype pyfloat = Finite bool nat int | Infinity bool | NaN

text \<open>
  The values that \<^verbatim>\<open>request.json\<close> produces and \<^verbatim>\<open>jsonify\<close> consumes. \<open>JNull\<close> is
  Python's \<^verbatim>\<open>None\<close>. A \<^verbatim>\<open>dict\<close> with string keys is the list of its items in insertion
  order; a key is looked up with \<^const>\<open>map_of\<close>.
\<close>

type_synonym 'v dict = "(string \<times> 'v) list"

datatype json =
    JNull
  | JBool bool
  | JInt int
  | JFloat pyfloat
  | JStr string
  | JArr "json list"
  | JObj "(string \<times> json) list"

text \<open>Python's truth value of an object, as \<^verbatim>\<open>not url\<close> tests it.\<close>

fun truthy :: "json \<Rightarrow> bool" where
  "truthy JNull = False"
| "truthy (JBool b) = b"
| "truthy (JInt n) = (n \<noteq> 0)"
| "truthy (JFloat (Finite s m e)) = (m \<noteq> 0)"
| "truthy (JFloat (Infinity s)) = True"
| "truthy (JFloat NaN) = True"
| "truthy (JStr s) = (s \<noteq> [])"
| "truthy (JArr xs) = (xs \<noteq> [])"
| "truthy (JObj kvs) = (kvs \<noteq> [])"

text \<open>\<^verbatim>\<open>d.get(key, default)\<close>; the default of the default is \<^verbatim>\<open>None\<close>.\<close>

definition dict_get :: "json dict \<Rightarrow> string \<Rightarrow> json \<Rightarrow> json" where
  "dict_get d k dflt = (case map_of d k of None \<Rightarrow> dflt | Some v \<Rightarrow> v)"

text \<open>
  \<^verbatim>\<open>dict(m)\<close> for a mapping \<open>m\<close>: a new dict with one entry for each key of \<open>m\<close>,
  holding \<open>m[key]\<close>.
\<close>

definition dict_of :: "'v dict \<Rightarrow> 'v dict" where
  "dict_of m = AList.clearjunk m"

subsection \<open>Exceptions, the environment and the world\<close>

text \<open>
  \<open>RequestException\<close> stands for \<^verbatim>\<open>requests.exceptions.RequestException\<close> and its
  subclasses (the timeouts, connection errors and TLS errors of the requests library)
  and carries \<^verbatim>\<open>str(e)\<close>. \<open>AttributeError\<close> is what \<^verbatim>\<open>data.get\<close> raises on a body that is
  no dict, and carries the name of the missing attribute. \<open>HTTPException\<close> is what
  \<^verbatim>\<open>request.json\<close> raises on a body that is no JSON, and carries the HTTP status that
  Flask answers with. \<open>OtherException\<close> is every other exception class.
\<close>

datatype exn =
    RequestException string
  | AttributeError string
  | HTTPException int
  | OtherException string

datatype 'a outcome = Returns 'a | Raises exn

text \<open>
  The attributes of \<^verbatim>\<open>requests.Response\<close>. The handler reads \<^verbatim>\<open>status_code\<close>,
  \<^verbatim>\<open>headers\<close> (the mapping that the client offers, one value for each name) and
  \<^verbatim>\<open>text\<close> (here \<open>response_text\<close>). It never reads the other two: \<open>final_url\<close> is the
  attribute \<^verbatim>\<open>response.url\<close> (the URL after redirects), and \<open>upstream_headers\<close> are the
  header lines of the upstream response as they were received, a name possibly more
  than once.
\<close>

record response =
  status_code :: int
  headers :: "string dict"
  response_text :: string
  final_url :: string
  upstream_headers :: "(string \<times> string) list"

text \<open>The inbound request: \<^verbatim>\<open>request.json\<close> either returns the parsed body or raises.\<close>

record request =
  json :: "json outcome"

text \<open>
  The environment answers \<^verbatim>\<open>requests.get(url, timeout=t)\<close> and
  \<^verbatim>\<open>datetime.datetime.now().isoformat()\<close>.
\<close>

record env =
  requests_get :: "json \<Rightarrow> nat \<Rightarrow> response outcome"
  now_isoformat :: string

text \<open>
  The world records the effects of the handler: every call of \<^verbatim>\<open>requests.get\<close> with its
  URL and timeout, and every payload printed to the console.
\<close>

record world =
  requests_sent :: "(json \<times> nat) list"
  stdout :: "json list"

text \<open>
  What a call of the handler ends in: a JSON response with its HTTP status
  (\<^verbatim>\<open>return jsonify(body), status\<close>), or an exception that leaves the handler.
\<close>

datatype result = Response json int | Uncaught exn

subsection \<open>The handler\<close>

text \<open>The dict \<^verbatim>\<open>http_response_package\<close> of lines 24 to 29.\<close>

definition http_response_package :: "response \<Rightarrow> json \<Rightarrow> json" where
  "http_response_package r url =
     JObj [(''status_code'', JInt (status_code r)),
           (''headers'', JObj (map (\<lambda>(k, v). (k, JStr v)) (dict_of (headers r)))),
           (''content'', JStr (response_text r)),
           (''url'', url)]"

text \<open>The dict \<^verbatim>\<open>callback_payload\<close> of lines 35 to 44.\<close>

definition callback_payload :: "json \<Rightarrow> string \<Rightarrow> json \<Rightarrow> json" where
  "callback_payload original_prompt timestamp package =
     JObj [(''automated_return'', JBool True),
           (''original_prompt'', original_prompt),
           (''timestamp'', JStr timestamp),
           (''status_metadata'', JStr ''Content gathering complete.''),
           (''result_package'',
              JObj [(''dataType'', JStr ''http_response''), (''data'', package)])]"

text \<open>The body of the 200 response of line 50.\<close>

definition success_body :: "json \<Rightarrow> json" where
  "success_body payload =
     JObj [(''message'', JStr ''URL processing initiated (simulated callback)''),
           (''payload_preview'', payload)]"

text \<open>The body of the 400 and 500 responses of lines 20 and 53.\<close>

definition error_body :: "string \<Rightarrow> json" where
  "error_body msg = JObj [(''error'', JStr msg)]"

text \<open>
  \<^verbatim>\<open>process_url\<close>, lines 13 to 53. The local \<open>data_type\<close> is bound as in the source and,
  as in the source, never used.
\<close>

definition process_url :: "env \<Rightarrow> request \<Rightarrow> world \<Rightarrow> result \<times> world" where
  "process_url e req w =
     (case json req of
        Raises x \<Rightarrow> (Uncaught x, w)
      | Returns (JObj data) \<Rightarrow>
          (let url = dict_get data ''url'' JNull;
               data_type = dict_get data ''dataType'' (JStr ''http_response'');
               original_prompt = dict_get data ''originalPrompt'' JNull
           in if \<not> truthy url then (Response (error_body ''URL is required'') 400, w)
              else
                (let w1 = w\<lparr>requests_sent := requests_sent w @ [(url, 30)]\<rparr>
                 in case requests_get e url 30 of
                      Returns r \<Rightarrow>
                        (let package = http_response_package r url;
                             payload = callback_payload original_prompt (now_isoformat e) package;
                             w2 = w1\<lparr>stdout := stdout w1 @ [payload]\<rparr>
                         in (Response (success_body payload) 200, w2))
                    | Raises (RequestException msg) \<Rightarrow> (Response (error_body msg) 500, w1)
                    | Raises x \<Rightarrow> (Uncaught x, w1)))
      | Returns _ \<Rightarrow> (Uncaught (AttributeError ''get''), w))"

subsection \<open>Reading a response\<close>

text \<open>How a client reads a field of a JSON object, and a field along a path of keys.\<close>

fun json_get :: "json \<Rightarrow> string \<Rightarrow> json option" where
  "json_get (JObj kvs) k = map_of kvs k"
| "json_get _ k = None"

fun json_path :: "json \<Rightarrow> string list \<Rightarrow> json option" where
  "json_path j [] = Some j"
| "json_path j (k # ks) = (case json_get j k of None \<Rightarrow> None | Some j' \<Rightarrow> json_path j' ks)"

text \<open>The same on what the handler ends in; an exception has no fields.\<close>

fun result_path :: "result \<Rightarrow> string list \<Rightarrow> json option" where
  "result_path (Response body status) ks = json_path body ks"
| "result_path (Uncaught x) ks = None"

text \<open>The HTTP status that the handler answers with; an exception is no answer of the handler.\<close>

fun response_status :: "result \<Rightarrow> int option" where
  "response_status (Response body status) = Some status"
| "response_status (Uncaught x) = None"

subsection \<open>Concrete requests and a stub server for the examples\<close>

text \<open>A POST request whose body parses to the given JSON value.\<close>

definition post :: "json \<Rightarrow> request" where
  "post body = \<lparr>json = Returns body\<rparr>"

definition ok_url :: json where
  "ok_url = JStr ''http://example.test/ok''"

definition moved_url :: json where
  "moved_url = JStr ''http://example.test/moved''"

definition cookies_url :: json where
  "cookies_url = JStr ''http://example.test/cookies''"

definition down_url :: json where
  "down_url = JStr ''http://example.test/down''"

definition bad_host_url :: json where
  "bad_host_url = JStr ''http://example..test/''"

text \<open>
  The answers of the stub server, as the requests library hands them over. The first is
  the scenario of the specification. The second was redirected and ended in a 404. The
  third was sent with two \<^verbatim>\<open>Set-Cookie\<close> lines, which the client offers under one name
  as one string, the values joined by a comma.
\<close>

definition ok_response :: response where
  "ok_response =
     \<lparr>status_code = 200,
      headers = [(''Content-Type'', ''application/json'')],
      response_text = ''{\"x\":1}'',
      final_url = ''http://example.test/ok'',
      upstream_headers = [(''Content-Type'', ''application/json'')]\<rparr>"

definition moved_response :: response where
  "moved_response =
     \<lparr>status_code = 404,
      headers = [(''Content-Type'', ''text/html'')],
      response_text = ''Not Found'',
      final_url = ''http://example.test/gone'',
      upstream_headers = [(''Content-Type'', ''text/html'')]\<rparr>"

definition cookies_response :: response where
  "cookies_response =
     \<lparr>status_code = 200,
      headers = [(''Set-Cookie'', ''a=1, b=2'')],
      response_text = ''ok'',
      final_url = ''http://example.test/cookies'',
      upstream_headers = [(''Set-Cookie'', ''a=1''), (''Set-Cookie'', ''b=2'')]\<rparr>"

text \<open>
  The host of the fifth URL has an empty label. When the client connects to it, urllib3
  raises its \<^verbatim>\<open>LocationParseError\<close>, which the requests library passes on as it is and
  which is no \<^verbatim>\<open>RequestException\<close>. Every other URL cannot be connected to.
\<close>

definition stub_get :: "json \<Rightarrow> nat \<Rightarrow> response outcome" where
  "stub_get url timeout =
     (if url = ok_url then Returns ok_response
      else if url = moved_url then Returns moved_response
      else if url = cookies_url then Returns cookies_response
      else if url = bad_host_url then Raises (OtherException ''LocationParseError'')
      else Raises (RequestException ''Connection refused''))"

definition stub_env :: env where
  "stub_env = \<lparr>requests_get = stub_get, now_isoformat = ''2024-01-01T00:00:00''\<rparr>"


definition world0 :: world where
  "world0 = \<lparr>requests_sent = [], stdout = []\<rparr>"

section \<open>Properties\<close>

subsection \<open>General facts about the handler\<close>

lemma process_url_falsy:
  assumes "json req = Returns (JObj d)" and "\<not> truthy (dict_get d ''url'' JNull)"
  shows "process_url e req w = (Response (error_body ''URL is required'') 400, w)"
  using assms by (simp add: process_url_def)

lemma process_url_fetched:
  assumes "json req = Returns (JObj d)"
    and "truthy (dict_get d ''url'' JNull)"
    and "requests_get e (dict_get d ''url'' JNull) 30 = Returns r"
  shows "process_url e req w =
    (Response (success_body (callback_payload (dict_get d ''originalPrompt'' JNull)
        (now_isoformat e) (http_response_package r (dict_get d ''url'' JNull)))) 200,
     w\<lparr>requests_sent := requests_sent w @ [(dict_get d ''url'' JNull, 30)],
       stdout := stdout w @ [callback_payload (dict_get d ''originalPrompt'' JNull)
        (now_isoformat e) (http_response_package r (dict_get d ''url'' JNull))]\<rparr>)"
  using assms by (simp add: process_url_def Let_def)

lemma process_url_request_exception:
  assumes "json req = Returns (JObj d)"
    and "truthy (dict_get d ''url'' JNull)"
    and "requests_get e (dict_get d ''url'' JNull) 30 = Raises (RequestException msg)"
  shows "process_url e req w =
    (Response (error_body msg) 500,
     w\<lparr>requests_sent := requests_sent w @ [(dict_get d ''url'' JNull, 30)]\<rparr>)"
  using assms by (simp add: process_url_def Let_def)

text \<open>
  The three ways an exception leaves the handler: \<^verbatim>\<open>request.json\<close> raises at line 14, a
  body that is no dict fails at line 15 (both before the \<^verbatim>\<open>try\<close>), and an exception of
  \<^verbatim>\<open>requests.get\<close> that is no \<^verbatim>\<open>RequestException\<close> passes the \<^verbatim>\<open>except\<close> clause of line 52.
\<close>

lemma process_url_no_json:
  assumes "json req = Raises x"
  shows "process_url e req w = (Uncaught x, w)"
  using assms by (simp add: process_url_def)

lemma process_url_no_dict:
  assumes "json req = Returns data" and "\<forall>d. data \<noteq> JObj d"
  shows "process_url e req w = (Uncaught (AttributeError ''get''), w)"
  using assms by (cases data) (simp_all add: process_url_def)

lemma process_url_other_exception:
  assumes "json req = Returns (JObj d)"
    and "truthy (dict_get d ''url'' JNull)"
    and "requests_get e (dict_get d ''url'' JNull) 30 = Raises x"
    and "\<forall>msg. x \<noteq> RequestException msg"
  shows "process_url e req w =
    (Uncaught x, w\<lparr>requests_sent := requests_sent w @ [(dict_get d ''url'' JNull, 30)]\<rparr>)"
  using assms by (cases x) (simp_all add: process_url_def Let_def)

text \<open>Every 200 response comes from a truthy URL whose fetch returned.\<close>

lemma process_url_200:
  assumes "json req = Returns (JObj d)"
    and "process_url e req w = (Response body 200, w')"
  shows "truthy (dict_get d ''url'' JNull) \<and>
    (\<exists>r. requests_get e (dict_get d ''url'' JNull) 30 = Returns r \<and>
      body = success_body (callback_payload (dict_get d ''originalPrompt'' JNull)
        (now_isoformat e) (http_response_package r (dict_get d ''url'' JNull))))"
  using assms
  by (auto simp add: process_url_def Let_def split: if_splits outcome.splits exn.splits)

text \<open>A mapping has one entry for each key, and then \<^verbatim>\<open>dict(m)\<close> has the items of \<open>m\<close>.\<close>

lemma dict_of_distinct: "distinct (map fst m) \<Longrightarrow> dict_of m = m"
  by (simp add: dict_of_def)

lemma dict_of_lookup: "map_of (dict_of m) k = map_of m k"
  by (simp add: dict_of_def map_of_clearjunk)

lemma dict_of_one_value_per_key: "distinct (map fst (dict_of m))"
  by (simp add: dict_of_def)

text \<open>The answers of the stub server.\<close>

lemma stub_env_answers:
  "requests_get stub_env ok_url 30 = Returns ok_response"
  "requests_get stub_env moved_url 30 = Returns moved_response"
  "requests_get stub_env cookies_url 30 = Returns cookies_response"
  "requests_get stub_env down_url 30 = Raises (RequestException ''Connection refused'')"
  "requests_get stub_env bad_host_url 30 = Raises (OtherException ''LocationParseError'')"
  by (simp_all add: stub_env_def stub_get_def ok_url_def moved_url_def cookies_url_def
      down_url_def bad_host_url_def)

lemma truthy_urls:
  "truthy ok_url" "truthy moved_url" "truthy cookies_url" "truthy down_url" "truthy bad_host_url"
  by (simp_all add: ok_url_def moved_url_def cookies_url_def down_url_def bad_host_url_def)

subsection \<open>Validation of the request\<close>

text \<open>
  Claim C2. When the body has no \<^verbatim>\<open>url\<close> entry, or its \<^verbatim>\<open>url\<close> is the empty string, the
  handler answers 400 with the body \<^verbatim>\<open>{"error": "URL is required"}\<close>, whatever else the
  body holds. The world is returned as it was: \<^verbatim>\<open>requests.get\<close> is not called (and nothing
  is printed).
\<close>

theorem missing_url_rejected:
  assumes "json req = Returns (JObj d)"
    and "map_of d ''url'' = None \<or> map_of d ''url'' = Some (JStr [])"
  shows "process_url e req w = (Response (JObj [(''error'', JStr ''URL is required'')]) 400, w)"
proof -
  from assms(2) have "\<not> truthy (dict_get d ''url'' JNull)"
    by (auto simp add: dict_get_def)
  with assms(1) show ?thesis
    by (simp add: process_url_falsy error_body_def)
qed

text \<open>A body with the two other fields and no \<^verbatim>\<open>url\<close>, before a world with no fetch.\<close>

theorem missing_url_rejected_witness:
  "json (post (JObj [(''dataType'', JStr ''pdf''), (''originalPrompt'', JStr ''find cats'')])) =
      Returns (JObj [(''dataType'', JStr ''pdf''), (''originalPrompt'', JStr ''find cats'')])
   \<and> map_of [(''dataType'', JStr ''pdf''), (''originalPrompt'', JStr ''find cats'')] ''url'' = None
   \<and> process_url stub_env
        (post (JObj [(''dataType'', JStr ''pdf''), (''originalPrompt'', JStr ''find cats'')]))
        world0
      = (Response (JObj [(''error'', JStr ''URL is required'')]) 400,
         \<lparr>requests_sent = [], stdout = []\<rparr>)"
  using missing_url_rejected
    [where req = "post (JObj [(''dataType'', JStr ''pdf''), (''originalPrompt'', JStr ''find cats'')])"
       and d = "[(''dataType'', JStr ''pdf''), (''originalPrompt'', JStr ''find cats'')]"
       and e = stub_env and w = world0]
  by (simp add: post_def world0_def)

text \<open>
  Claim C10. The test of line 19 is Python's truth test. A \<^verbatim>\<open>url\<close> entry that is present
  with a falsy value (the empty string, \<^verbatim>\<open>null\<close>, \<^verbatim>\<open>false\<close>, \<^verbatim>\<open>0\<close>, the empty array, and
  every other value that is not truthy) is rejected as an absent one is: 400, the body
  \<^verbatim>\<open>{"error": "URL is required"}\<close>, the world unchanged, the same outcome as for the body
  with the \<^verbatim>\<open>url\<close> entry removed. A truthy value of any type is not rejected with 400.
\<close>

theorem falsy_url_rejected:
  assumes "json req = Returns (JObj d)" and "map_of d ''url'' = Some v"
  shows "(v \<in> {JStr [], JNull, JBool False, JInt 0, JArr []} \<longrightarrow> \<not> truthy v)
    \<and> (\<not> truthy v \<longrightarrow>
          process_url e req w = (Response (JObj [(''error'', JStr ''URL is required'')]) 400, w)
        \<and> process_url e req w = process_url e (post (JObj (AList.delete ''url'' d))) w)
    \<and> (truthy v \<longrightarrow>
          (\<forall>body. fst (process_url e req w) \<noteq> Response body 400))"
proof (intro conjI impI)
  assume "v \<in> {JStr [], JNull, JBool False, JInt 0, JArr []}"
  then show "\<not> truthy v" by auto
next
  assume falsy: "\<not> truthy v"
  with assms(2) have "\<not> truthy (dict_get d ''url'' JNull)"
    by (simp add: dict_get_def)
  with assms(1) show rejected:
    "process_url e req w = (Response (JObj [(''error'', JStr ''URL is required'')]) 400, w)"
    by (simp add: process_url_falsy error_body_def)
  have "map_of (AList.delete ''url'' d) ''url'' = None"
    by (simp add: delete_conv')
  then have "\<not> truthy (dict_get (AList.delete ''url'' d) ''url'' JNull)"
    by (simp add: dict_get_def)
  then have "process_url e (post (JObj (AList.delete ''url'' d))) w =
      (Response (error_body ''URL is required'') 400, w)"
    by (intro process_url_falsy) (simp_all add: post_def)
  with rejected show "process_url e req w = process_url e (post (JObj (AList.delete ''url'' d))) w"
    by (simp add: error_body_def)
next
  assume "truthy v"
  with assms show "\<forall>body. fst (process_url e req w) \<noteq> Response body 400"
    by (simp add: process_url_def dict_get_def Let_def split: outcome.splits exn.splits)
qed

text \<open>The number \<^verbatim>\<open>0\<close> as \<^verbatim>\<open>url\<close>, beside a prompt.\<close>

theorem falsy_url_rejected_witness:
  "json (post (JObj [(''url'', JInt 0), (''originalPrompt'', JStr ''find cats'')])) =
      Returns (JObj [(''url'', JInt 0), (''originalPrompt'', JStr ''find cats'')])
   \<and> map_of [(''url'', JInt 0), (''originalPrompt'', JStr ''find cats'')] ''url'' = Some (JInt 0)
   \<and> \<not> truthy (JInt 0)
   \<and> process_url stub_env (post (JObj [(''url'', JInt 0), (''originalPrompt'', JStr ''find cats'')]))
        world0
      = (Response (JObj [(''error'', JStr ''URL is required'')]) 400, world0)
   \<and> process_url stub_env (post (JObj [(''url'', JInt 0), (''originalPrompt'', JStr ''find cats'')]))
        world0
      = process_url stub_env (post (JObj [(''originalPrompt'', JStr ''find cats'')])) world0"
proof -
  have body: "json (post (JObj [(''url'', JInt 0), (''originalPrompt'', JStr ''find cats'')])) =
      Returns (JObj [(''url'', JInt 0), (''originalPrompt'', JStr ''find cats'')])"
    by (simp add: post_def)
  have url: "map_of [(''url'', JInt 0), (''originalPrompt'', JStr ''find cats'')] ''url'' =
      Some (JInt 0)"
    by simp
  have del: "AList.delete ''url'' [(''url'', JInt 0), (''originalPrompt'', JStr ''find cats'')] =
      [(''originalPrompt'', JStr ''find cats'')]"
    by (simp add: AList.delete_eq)
  have falsy: "\<not> truthy (JInt 0)"
    by simp
  note rejected = falsy_url_rejected [OF body url, of stub_env world0]
  from rejected falsy have both:
    "process_url stub_env
        (post (JObj [(''url'', JInt 0), (''originalPrompt'', JStr ''find cats'')])) world0
      = (Response (JObj [(''error'', JStr ''URL is required'')]) 400, world0)
    \<and> process_url stub_env
        (post (JObj [(''url'', JInt 0), (''originalPrompt'', JStr ''find cats'')])) world0
      = process_url stub_env
          (post (JObj (AList.delete ''url''
            [(''url'', JInt 0), (''originalPrompt'', JStr ''find cats'')]))) world0"
    by blast
  note a = both [THEN conjunct1] and b = both [THEN conjunct2, unfolded del]
  show ?thesis
    using body url falsy a b by (intro conjI)
qed

subsection \<open>A fetch that returns\<close>

text \<open>
  Claim C1, with the field names that the code writes. When the body is a JSON object
  with a truthy \<^verbatim>\<open>url\<close> and the fetch returns a response with status 200, headers \<open>H\<close>
  (a mapping: one entry for each name) and text \<open>B\<close>, the handler answers 200 with the
  body \<^verbatim>\<open>{"message": "URL processing initiated (simulated callback)", "payload_preview": P}\<close>
  where \<open>P\<close> is the callback payload, and \<^verbatim>\<open>payload_preview.result_package.data\<close> is
  \<^verbatim>\<open>{"status_code": 200, "headers": H, "content": B, "url": url}\<close> for the \<^verbatim>\<open>url\<close> of the
  request. The names are \<^verbatim>\<open>payload_preview\<close>, \<^verbatim>\<open>result_package\<close> and \<^verbatim>\<open>status_code\<close>, not
  \<^verbatim>\<open>payloadPreview\<close>, \<^verbatim>\<open>resultPackage\<close> and \<^verbatim>\<open>statusCode\<close>.
\<close>

theorem success_response_shape:
  assumes "json req = Returns (JObj d)"
    and "url = dict_get d ''url'' JNull"
    and "truthy url"
    and "requests_get e url 30 = Returns r"
    and "status_code r = 200"
    and "headers r = H"
    and "distinct (map fst H)"
    and "response_text r = B"
  shows "fst (process_url e req w) =
        Response (JObj [(''message'', JStr ''URL processing initiated (simulated callback)''),
                        (''payload_preview'',
                           callback_payload (dict_get d ''originalPrompt'' JNull) (now_isoformat e)
                             (http_response_package r url))]) 200
    \<and> result_path (fst (process_url e req w)) [''payload_preview'', ''result_package'', ''data''] =
        Some (JObj [(''status_code'', JInt 200),
                    (''headers'', JObj (map (\<lambda>(k, v). (k, JStr v)) H)),
                    (''content'', JStr B),
                    (''url'', url)])"
  using assms
  by (simp add: process_url_fetched success_body_def callback_payload_def
      http_response_package_def dict_of_distinct)

text \<open>The scenario of the specification: the stub server answers 200 with \<^verbatim>\<open>{"x":1}\<close>.\<close>

theorem success_response_shape_witness:
  "json (post (JObj [(''url'', ok_url), (''originalPrompt'', JStr ''find cats'')])) =
      Returns (JObj [(''url'', ok_url), (''originalPrompt'', JStr ''find cats'')])
   \<and> ok_url = dict_get [(''url'', ok_url), (''originalPrompt'', JStr ''find cats'')] ''url'' JNull
   \<and> truthy ok_url
   \<and> requests_get stub_env ok_url 30 = Returns ok_response
   \<and> status_code ok_response = 200
   \<and> distinct (map fst (headers ok_response))
   \<and> result_path
        (fst (process_url stub_env
          (post (JObj [(''url'', ok_url), (''originalPrompt'', JStr ''find cats'')])) world0))
        [''payload_preview'', ''result_package'', ''data''] =
      Some (JObj [(''status_code'', JInt 200),
                  (''headers'', JObj [(''Content-Type'', JStr ''application/json'')]),
                  (''content'', JStr ''{\"x\":1}''),
                  (''url'', JStr ''http://example.test/ok'')])"
proof -
  have body: "json (post (JObj [(''url'', ok_url), (''originalPrompt'', JStr ''find cats'')])) =
      Returns (JObj [(''url'', ok_url), (''originalPrompt'', JStr ''find cats'')])"
    by (simp add: post_def)
  have url: "ok_url = dict_get [(''url'', ok_url), (''originalPrompt'', JStr ''find cats'')] ''url'' JNull"
    by (simp add: dict_get_def)
  have fetched: "requests_get stub_env ok_url 30 = Returns ok_response"
    by (simp add: stub_env_answers)
  have status: "status_code ok_response = 200"
    by (simp add: ok_response_def)
  have mapping: "distinct (map fst (headers ok_response))"
    by (simp add: ok_response_def)
  from success_response_shape [OF body url truthy_urls(1) fetched status refl mapping refl, of world0]
  have "result_path
        (fst (process_url stub_env
          (post (JObj [(''url'', ok_url), (''originalPrompt'', JStr ''find cats'')])) world0))
        [''payload_preview'', ''result_package'', ''data''] =
      Some (JObj [(''status_code'', JInt 200),
                  (''headers'', JObj (map (\<lambda>(k, v). (k, JStr v)) (headers ok_response))),
                  (''content'', JStr (response_text ok_response)),
                  (''url'', ok_url)])"
    by (rule conjunct2)
  also have "\<dots> =
      Some (JObj [(''status_code'', JInt 200),
                  (''headers'', JObj [(''Content-Type'', JStr ''application/json'')]),
                  (''content'', JStr ''{\"x\":1}''),
                  (''url'', JStr ''http://example.test/ok'')])"
    by (simp add: ok_response_def ok_url_def)
  finally show ?thesis
    using body url truthy_urls(1) fetched status mapping by simp
qed

text \<open>
  On the same request the response has no field \<^verbatim>\<open>payloadPreview\<close>, so nothing is read
  along \<^verbatim>\<open>payloadPreview.resultPackage.data\<close>, and the data that is there has no field
  \<^verbatim>\<open>statusCode\<close>.
\<close>

theorem camel_case_names_counterexample:
  "requests_get stub_env ok_url 30 = Returns ok_response
   \<and> status_code ok_response = 200
   \<and> result_path (fst (process_url stub_env (post (JObj [(''url'', ok_url)])) world0))
        [''payloadPreview'', ''resultPackage'', ''data''] \<noteq>
      Some (JObj [(''statusCode'', JInt 200),
                  (''headers'', JObj [(''Content-Type'', JStr ''application/json'')]),
                  (''content'', JStr ''{\"x\":1}''),
                  (''url'', ok_url)])
   \<and> result_path (fst (process_url stub_env (post (JObj [(''url'', ok_url)])) world0))
        [''payloadPreview''] = None
   \<and> result_path (fst (process_url stub_env (post (JObj [(''url'', ok_url)])) world0))
        [''payload_preview'', ''result_package'', ''data'', ''statusCode''] = None"
  by (simp add: process_url_def Let_def post_def dict_get_def stub_env_answers truthy_urls
      success_body_def callback_payload_def http_response_package_def)
     (simp add: ok_response_def)

text \<open>
  Claim C4. A fetch that returns is a success whatever status the upstream server
  answered, so also for a status outside 200 to 299: the handler answers 200, the
  \<^verbatim>\<open>status_metadata\<close> of the payload (the specification's \<^verbatim>\<open>statusMetadata\<close>) is the literal
  \<^verbatim>\<open>Content gathering complete.\<close>, the same for every upstream status, and the upstream
  status is the \<^verbatim>\<open>status_code\<close> of the package (the specification's \<^verbatim>\<open>statusCode\<close>).
\<close>

theorem upstream_status_packaged:
  assumes "json req = Returns (JObj d)"
    and "url = dict_get d ''url'' JNull"
    and "truthy url"
    and "requests_get e url 30 = Returns r"
  shows "(\<exists>body. fst (process_url e req w) = Response body 200)
    \<and> result_path (fst (process_url e req w)) [''payload_preview'', ''status_metadata'']
        = Some (JStr ''Content gathering complete.'')
    \<and> result_path (fst (process_url e req w))
          [''payload_preview'', ''result_package'', ''data'', ''status_code'']
        = Some (JInt (status_code r))"
  using assms
  by (simp add: process_url_fetched success_body_def callback_payload_def
      http_response_package_def)

text \<open>The stub server answers 404 for the moved URL.\<close>

theorem upstream_status_packaged_witness:
  "json (post (JObj [(''url'', moved_url)])) = Returns (JObj [(''url'', moved_url)])
   \<and> moved_url = dict_get [(''url'', moved_url)] ''url'' JNull
   \<and> truthy moved_url
   \<and> requests_get stub_env moved_url 30 = Returns moved_response
   \<and> status_code moved_response = 404
   \<and> (\<exists>body. fst (process_url stub_env (post (JObj [(''url'', moved_url)])) world0) =
          Response body 200)
   \<and> result_path (fst (process_url stub_env (post (JObj [(''url'', moved_url)])) world0))
        [''payload_preview'', ''status_metadata''] = Some (JStr ''Content gathering complete.'')
   \<and> result_path (fst (process_url stub_env (post (JObj [(''url'', moved_url)])) world0))
        [''payload_preview'', ''result_package'', ''data'', ''status_code''] = Some (JInt 404)"
proof -
  have body: "json (post (JObj [(''url'', moved_url)])) = Returns (JObj [(''url'', moved_url)])"
    by (simp add: post_def)
  have url: "moved_url = dict_get [(''url'', moved_url)] ''url'' JNull"
    by (simp add: dict_get_def)
  have status: "status_code moved_response = 404"
    by (simp add: moved_response_def)
  note packaged =
    upstream_status_packaged [OF body url truthy_urls(2) stub_env_answers(2), of world0]
  show ?thesis
    using body url truthy_urls(2) stub_env_answers(2) status packaged [unfolded status]
    by (intro conjI) blast+
qed

text \<open>
  Claim C5. On every success path, the \<^verbatim>\<open>url\<close> of the package (read along
  \<^verbatim>\<open>payload_preview.result_package.data.url\<close>, the specification's \<^verbatim>\<open>resultPackage.data.url\<close>)
  is the value of the \<^verbatim>\<open>url\<close> entry of the request, whatever the response holds as its
  final URL after redirects.
\<close>

theorem packaged_url_is_request_url:
  assumes "json req = Returns (JObj d)"
    and "process_url e req w = (Response body 200, w')"
  shows "json_path body [''payload_preview'', ''result_package'', ''data'', ''url'']
      = Some (dict_get d ''url'' JNull)"
  using process_url_200 [OF assms]
  by (auto simp add: success_body_def callback_payload_def http_response_package_def)

text \<open>The moved URL was redirected: the response ends at another URL than the request.\<close>

theorem packaged_url_is_request_url_witness:
  "json (post (JObj [(''url'', moved_url)])) = Returns (JObj [(''url'', moved_url)])
   \<and> final_url moved_response = ''http://example.test/gone''
   \<and> process_url stub_env (post (JObj [(''url'', moved_url)])) world0 =
        (Response (success_body (callback_payload JNull ''2024-01-01T00:00:00''
            (http_response_package moved_response moved_url))) 200,
         world0\<lparr>requests_sent := [(moved_url, 30)],
           stdout := [callback_payload JNull ''2024-01-01T00:00:00''
            (http_response_package moved_response moved_url)]\<rparr>)
   \<and> json_path (success_body (callback_payload JNull ''2024-01-01T00:00:00''
            (http_response_package moved_response moved_url)))
        [''payload_preview'', ''result_package'', ''data'', ''url'']
      = Some (JStr ''http://example.test/moved'')"
proof -
  have body: "json (post (JObj [(''url'', moved_url)])) = Returns (JObj [(''url'', moved_url)])"
    by (simp add: post_def)
  have final: "final_url moved_response = ''http://example.test/gone''"
    by (simp add: moved_response_def)
  have run: "process_url stub_env (post (JObj [(''url'', moved_url)])) world0 =
        (Response (success_body (callback_payload JNull ''2024-01-01T00:00:00''
            (http_response_package moved_response moved_url))) 200,
         world0\<lparr>requests_sent := [(moved_url, 30)],
           stdout := [callback_payload JNull ''2024-01-01T00:00:00''
            (http_response_package moved_response moved_url)]\<rparr>)"
    by (simp add: process_url_def Let_def post_def dict_get_def truthy_urls stub_env_answers)
       (simp add: stub_env_def world0_def)
  from packaged_url_is_request_url [OF body run]
  have "json_path (success_body (callback_payload JNull ''2024-01-01T00:00:00''
            (http_response_package moved_response moved_url)))
        [''payload_preview'', ''result_package'', ''data'', ''url'']
      = Some (JStr ''http://example.test/moved'')"
    by (simp add: dict_get_def moved_url_def)
  with body final run show ?thesis
    by (intro conjI)
qed

text \<open>
  Claim C6. The \<^verbatim>\<open>dataType\<close> entry of the request changes nothing: two bodies that agree
  on every other key (whatever each holds under \<^verbatim>\<open>dataType\<close>, or nothing) end in the same
  response and the same world, and on success the \<^verbatim>\<open>dataType\<close> of the result package is
  the literal \<^verbatim>\<open>http_response\<close>.
\<close>

theorem data_type_ignored:
  assumes "json req1 = Returns (JObj d1)"
    and "json req2 = Returns (JObj d2)"
    and "\<forall>k. k \<noteq> ''dataType'' \<longrightarrow> map_of d1 k = map_of d2 k"
  shows "process_url e req1 w = process_url e req2 w
    \<and> (\<forall>body w'. process_url e req1 w = (Response body 200, w') \<longrightarrow>
          json_path body [''payload_preview'', ''result_package'', ''dataType'']
            = Some (JStr ''http_response''))"
proof (intro conjI allI impI)
  from assms(3) have "map_of d1 ''url'' = map_of d2 ''url''"
    and "map_of d1 ''originalPrompt'' = map_of d2 ''originalPrompt''"
    by simp_all
  then have "dict_get d1 ''url'' JNull = dict_get d2 ''url'' JNull"
    and "dict_get d1 ''originalPrompt'' JNull = dict_get d2 ''originalPrompt'' JNull"
    by (simp_all add: dict_get_def)
  with assms(1,2) show "process_url e req1 w = process_url e req2 w"
    by (simp add: process_url_def)
next
  fix body w'
  assume "process_url e req1 w = (Response body 200, w')"
  from process_url_200 [OF assms(1) this]
  show "json_path body [''payload_preview'', ''result_package'', ''dataType'']
      = Some (JStr ''http_response'')"
    by (auto simp add: success_body_def callback_payload_def)
qed

text \<open>A request for a PDF and the same request with no \<^verbatim>\<open>dataType\<close>.\<close>

theorem data_type_ignored_witness:
  "json (post (JObj [(''url'', ok_url), (''dataType'', JStr ''pdf'')])) =
      Returns (JObj [(''url'', ok_url), (''dataType'', JStr ''pdf'')])
   \<and> json (post (JObj [(''url'', ok_url)])) = Returns (JObj [(''url'', ok_url)])
   \<and> process_url stub_env (post (JObj [(''url'', ok_url), (''dataType'', JStr ''pdf'')])) world0 =
      process_url stub_env (post (JObj [(''url'', ok_url)])) world0
   \<and> process_url stub_env (post (JObj [(''url'', ok_url), (''dataType'', JStr ''pdf'')])) world0 =
        (Response (success_body (callback_payload JNull ''2024-01-01T00:00:00''
            (http_response_package ok_response ok_url))) 200,
         world0\<lparr>requests_sent := [(ok_url, 30)],
           stdout := [callback_payload JNull ''2024-01-01T00:00:00''
            (http_response_package ok_response ok_url)]\<rparr>)
   \<and> json_path (success_body (callback_payload JNull ''2024-01-01T00:00:00''
            (http_response_package ok_response ok_url)))
        [''payload_preview'', ''result_package'', ''dataType''] = Some (JStr ''http_response'')"
proof -
  have body1: "json (post (JObj [(''url'', ok_url), (''dataType'', JStr ''pdf'')])) =
      Returns (JObj [(''url'', ok_url), (''dataType'', JStr ''pdf'')])"
    by (simp add: post_def)
  have body2: "json (post (JObj [(''url'', ok_url)])) = Returns (JObj [(''url'', ok_url)])"
    by (simp add: post_def)
  have agree: "\<forall>k. k \<noteq> ''dataType'' \<longrightarrow>
      map_of [(''url'', ok_url), (''dataType'', JStr ''pdf'')] k = map_of [(''url'', ok_url)] k"
    by simp
  have run: "process_url stub_env (post (JObj [(''url'', ok_url), (''dataType'', JStr ''pdf'')]))
        world0 =
        (Response (success_body (callback_payload JNull ''2024-01-01T00:00:00''
            (http_response_package ok_response ok_url))) 200,
         world0\<lparr>requests_sent := [(ok_url, 30)],
           stdout := [callback_payload JNull ''2024-01-01T00:00:00''
            (http_response_package ok_response ok_url)]\<rparr>)"
    by (simp add: process_url_def Let_def post_def dict_get_def truthy_urls stub_env_answers)
       (simp add: stub_env_def world0_def)
  note ignored = data_type_ignored [OF body1 body2 agree, of stub_env world0]
  from ignored have same:
    "process_url stub_env (post (JObj [(''url'', ok_url), (''dataType'', JStr ''pdf'')])) world0 =
      process_url stub_env (post (JObj [(''url'', ok_url)])) world0"
    by (rule conjunct1)
  from ignored run have literal:
    "json_path (success_body (callback_payload JNull ''2024-01-01T00:00:00''
            (http_response_package ok_response ok_url)))
        [''payload_preview'', ''result_package'', ''dataType''] = Some (JStr ''http_response'')"
    by blast
  from body1 body2 same run literal show ?thesis
    by (intro conjI)
qed

text \<open>
  Claim C7. Whenever the body is a JSON object with a truthy \<^verbatim>\<open>url\<close> and the fetch returns,
  the handler answers 200 and the \<^verbatim>\<open>original_prompt\<close> of the payload (the specification's
  \<^verbatim>\<open>CallbackPayload.originalPrompt\<close>) is the value that the caller supplied under
  \<^verbatim>\<open>originalPrompt\<close>, unchanged, whatever JSON value it is; when the request has no such
  entry it is \<^verbatim>\<open>null\<close>, which is not the empty string. These are all the successes: every
  200 answer of the handler carries the prompt of its request in this way.
\<close>

theorem original_prompt_echoed:
  assumes "json req = Returns (JObj d)"
    and "url = dict_get d ''url'' JNull"
  shows "(truthy url \<and> (\<exists>r. requests_get e url 30 = Returns r) \<longrightarrow>
            response_status (fst (process_url e req w)) = Some 200
          \<and> (\<forall>v. map_of d ''originalPrompt'' = Some v \<longrightarrow>
                result_path (fst (process_url e req w)) [''payload_preview'', ''original_prompt'']
                  = Some v)
          \<and> (map_of d ''originalPrompt'' = None \<longrightarrow>
                result_path (fst (process_url e req w)) [''payload_preview'', ''original_prompt'']
                  = Some JNull
              \<and> result_path (fst (process_url e req w)) [''payload_preview'', ''original_prompt'']
                  \<noteq> Some (JStr [])))
    \<and> (\<forall>body w'. process_url e req w = (Response body 200, w') \<longrightarrow>
          json_path body [''payload_preview'', ''original_prompt'']
            = Some (dict_get d ''originalPrompt'' JNull))"
proof (intro conjI impI allI)
  assume success: "truthy url \<and> (\<exists>r. requests_get e url 30 = Returns r)"
  then obtain r where fetched: "requests_get e url 30 = Returns r" by blast
  from success have truthy: "truthy url" by simp
  note run = process_url_fetched [OF assms(1) truthy [unfolded assms(2)] fetched [unfolded assms(2)]]
  from run show "response_status (fst (process_url e req w)) = Some 200"
    by simp
  from run have echo:
    "result_path (fst (process_url e req w)) [''payload_preview'', ''original_prompt'']
      = Some (dict_get d ''originalPrompt'' JNull)"
    by (simp add: success_body_def callback_payload_def)
  show "result_path (fst (process_url e req w)) [''payload_preview'', ''original_prompt'']
      = Some v" if "map_of d ''originalPrompt'' = Some v" for v
    using echo that by (simp add: dict_get_def)
  assume absent: "map_of d ''originalPrompt'' = None"
  with echo show
    "result_path (fst (process_url e req w)) [''payload_preview'', ''original_prompt'']
      = Some JNull"
    by (simp add: dict_get_def)
  then show
    "result_path (fst (process_url e req w)) [''payload_preview'', ''original_prompt'']
      \<noteq> Some (JStr [])"
    by simp
next
  fix body w'
  assume "process_url e req w = (Response body 200, w')"
  from process_url_200 [OF assms(1) this]
  show "json_path body [''payload_preview'', ''original_prompt'']
      = Some (dict_get d ''originalPrompt'' JNull)"
    by (auto simp add: success_body_def callback_payload_def)
qed

text \<open>
  The scenario of the specification, whose prompt is \<^verbatim>\<open>find cats\<close>, and a request for the
  moved URL that has no prompt.
\<close>

theorem original_prompt_echoed_witness:
  "json (post (JObj [(''url'', ok_url), (''originalPrompt'', JStr ''find cats'')])) =
      Returns (JObj [(''url'', ok_url), (''originalPrompt'', JStr ''find cats'')])
   \<and> map_of [(''url'', ok_url), (''originalPrompt'', JStr ''find cats'')] ''originalPrompt'' =
      Some (JStr ''find cats'')
   \<and> truthy ok_url
   \<and> requests_get stub_env ok_url 30 = Returns ok_response
   \<and> response_status (fst (process_url stub_env
        (post (JObj [(''url'', ok_url), (''originalPrompt'', JStr ''find cats'')])) world0))
      = Some 200
   \<and> result_path (fst (process_url stub_env
        (post (JObj [(''url'', ok_url), (''originalPrompt'', JStr ''find cats'')])) world0))
        [''payload_preview'', ''original_prompt'']
      = Some (JStr ''find cats'')
   \<and> map_of [(''url'', moved_url)] ''originalPrompt'' = None
   \<and> result_path (fst (process_url stub_env (post (JObj [(''url'', moved_url)])) world0))
        [''payload_preview'', ''original_prompt'']
      = Some JNull"
proof -
  have body: "json (post (JObj [(''url'', ok_url), (''originalPrompt'', JStr ''find cats'')])) =
      Returns (JObj [(''url'', ok_url), (''originalPrompt'', JStr ''find cats'')])"
    by (simp add: post_def)
  have url: "ok_url = dict_get [(''url'', ok_url), (''originalPrompt'', JStr ''find cats'')] ''url'' JNull"
    by (simp add: dict_get_def)
  have supplied:
    "map_of [(''url'', ok_url), (''originalPrompt'', JStr ''find cats'')] ''originalPrompt'' =
      Some (JStr ''find cats'')"
    by simp
  have fetched: "\<exists>r. requests_get stub_env ok_url 30 = Returns r"
    by (simp add: stub_env_answers)
  from original_prompt_echoed [OF body url, of stub_env world0] truthy_urls(1) fetched
  have status: "response_status (fst (process_url stub_env
        (post (JObj [(''url'', ok_url), (''originalPrompt'', JStr ''find cats'')])) world0))
      = Some 200"
    and echo: "\<forall>v. map_of [(''url'', ok_url), (''originalPrompt'', JStr ''find cats'')]
          ''originalPrompt'' = Some v \<longrightarrow>
        result_path (fst (process_url stub_env
          (post (JObj [(''url'', ok_url), (''originalPrompt'', JStr ''find cats'')])) world0))
          [''payload_preview'', ''original_prompt''] = Some v"
    by blast+
  from echo supplied have echoed: "result_path (fst (process_url stub_env
        (post (JObj [(''url'', ok_url), (''originalPrompt'', JStr ''find cats'')])) world0))
        [''payload_preview'', ''original_prompt'']
      = Some (JStr ''find cats'')"
    by blast
  have body': "json (post (JObj [(''url'', moved_url)])) = Returns (JObj [(''url'', moved_url)])"
    by (simp add: post_def)
  have url': "moved_url = dict_get [(''url'', moved_url)] ''url'' JNull"
    by (simp add: dict_get_def)
  have absent: "map_of [(''url'', moved_url)] ''originalPrompt'' = None"
    by simp
  have fetched': "\<exists>r. requests_get stub_env moved_url 30 = Returns r"
    by (simp add: stub_env_answers)
  from original_prompt_echoed [OF body' url', of stub_env world0] truthy_urls(2) fetched' absent
  have null: "result_path (fst (process_url stub_env (post (JObj [(''url'', moved_url)])) world0))
        [''payload_preview'', ''original_prompt'']
      = Some JNull"
    by blast
  from body supplied truthy_urls(1) stub_env_answers(1) status echoed absent null
  show ?thesis
    by (intro conjI)
qed

text \<open>
  Claim C9, as the code has it. The \<^verbatim>\<open>headers\<close> of every package is a JSON object with
  one string for each name: for every name, the value that the mapping
  \<^verbatim>\<open>response.headers\<close> of the HTTP client holds for it, and nothing for any other name.
  The handler copies that mapping and never reads the header lines of the upstream
  response: the package is the same whatever they are. So when a name came more than
  once, the field holds what the client made of the lines, not the last of them.
\<close>

theorem headers_copied_from_client:
  "\<exists>hs. json_get (http_response_package r url) ''headers'' = Some (JObj hs)
      \<and> distinct (map fst hs)
      \<and> (\<forall>name. map_of hs name = map_option JStr (map_of (headers r) name))
      \<and> http_response_package (r\<lparr>upstream_headers := lines\<rparr>) url = http_response_package r url"
proof (intro exI conjI allI)
  show "json_get (http_response_package r url) ''headers'' =
      Some (JObj (map (\<lambda>(k, v). (k, JStr v)) (dict_of (headers r))))"
    by (simp add: http_response_package_def)
  have "map fst (map (\<lambda>(k, v). (k, JStr v)) (dict_of (headers r))) = map fst (dict_of (headers r))"
    by (induction "dict_of (headers r)") auto
  then show "distinct (map fst (map (\<lambda>(k, v). (k, JStr v)) (dict_of (headers r))))"
    by (simp only: dict_of_one_value_per_key)
  show "map_of (map (\<lambda>(k, v). (k, JStr v)) (dict_of (headers r))) name =
      map_option JStr (map_of (headers r) name)" for name
    by (simp add: map_of_map dict_of_lookup)
  show "http_response_package (r\<lparr>upstream_headers := lines\<rparr>) url = http_response_package r url"
    by (simp add: http_response_package_def)
qed

text \<open>
  The stub server sent \<^verbatim>\<open>Set-Cookie: a=1\<close> and then \<^verbatim>\<open>Set-Cookie: b=2\<close>. The last of the two
  values is \<^verbatim>\<open>b=2\<close>; the package holds \<^verbatim>\<open>a=1, b=2\<close>, as the mapping of the client does.
\<close>

theorem last_wins_counterexample:
  "requests_get stub_env cookies_url 30 = Returns cookies_response
   \<and> upstream_headers cookies_response = [(''Set-Cookie'', ''a=1''), (''Set-Cookie'', ''b=2'')]
   \<and> map_of (rev (upstream_headers cookies_response)) ''Set-Cookie'' = Some ''b=2''
   \<and> result_path (fst (process_url stub_env (post (JObj [(''url'', cookies_url)])) world0))
        [''payload_preview'', ''result_package'', ''data'', ''headers'', ''Set-Cookie'']
      = Some (JStr ''a=1, b=2'')
   \<and> result_path (fst (process_url stub_env (post (JObj [(''url'', cookies_url)])) world0))
        [''payload_preview'', ''result_package'', ''data'', ''headers'', ''Set-Cookie'']
      \<noteq> Some (JStr ''b=2'')"
  by (simp add: process_url_def Let_def post_def dict_get_def stub_env_answers truthy_urls
      success_body_def callback_payload_def http_response_package_def dict_of_def)
     (simp add: cookies_response_def)

subsection \<open>A fetch that fails, and the outcomes together\<close>




text \<open>
  Claim C8, as the code has it. A call of the handler on a body that is a JSON object
  ends in exactly one of four ways, told apart by the URL and by what the fetch does.
  Validation failure: the URL is not truthy; the answer is 400 with only an error, and
  the world is as before, so no fetch was made. Fetch failure: the URL is truthy and the
  fetch raised a \<^verbatim>\<open>RequestException\<close>; the answer is 500 with only an error. Success: the URL
  is truthy and the fetch returned; the answer is 200 with the whole payload, which was
  also printed. Escape: the URL is truthy and the fetch raised an exception of another
  class, which leaves the handler uncaught. There is nothing between success and
  failure, and an exception leaves the handler in the fourth case only.
\<close>

theorem four_outcomes:
  assumes "json req = Returns (JObj d)"
    and "url = dict_get d ''url'' JNull"
  shows "((\<not> truthy url
          \<and> process_url e req w = (Response (JObj [(''error'', JStr ''URL is required'')]) 400, w))
      \<or> (truthy url
          \<and> (\<exists>msg. requests_get e url 30 = Raises (RequestException msg)
              \<and> process_url e req w =
                  (Response (JObj [(''error'', JStr msg)]) 500,
                   w\<lparr>requests_sent := requests_sent w @ [(url, 30)]\<rparr>)))
      \<or> (truthy url
          \<and> (\<exists>r payload. requests_get e url 30 = Returns r
              \<and> payload =
                  JObj [(''automated_return'', JBool True),
                        (''original_prompt'', dict_get d ''originalPrompt'' JNull),
                        (''timestamp'', JStr (now_isoformat e)),
                        (''status_metadata'', JStr ''Content gathering complete.''),
                        (''result_package'',
                           JObj [(''dataType'', JStr ''http_response''),
                                 (''data'',
                                    JObj [(''status_code'', JInt (status_code r)),
                                          (''headers'',
                                             JObj (map (\<lambda>(k, v). (k, JStr v))
                                               (dict_of (headers r)))),
                                          (''content'', JStr (response_text r)),
                                          (''url'', url)])])]
              \<and> process_url e req w =
                  (Response
                     (JObj [(''message'', JStr ''URL processing initiated (simulated callback)''),
                            (''payload_preview'', payload)]) 200,
                   w\<lparr>requests_sent := requests_sent w @ [(url, 30)],
                     stdout := stdout w @ [payload]\<rparr>)))
      \<or> (truthy url
          \<and> (\<exists>x. requests_get e url 30 = Raises x
              \<and> (\<forall>msg. x \<noteq> RequestException msg)
              \<and> process_url e req w =
                  (Uncaught x, w\<lparr>requests_sent := requests_sent w @ [(url, 30)]\<rparr>))))
    \<and> (\<forall>x. fst (process_url e req w) = Uncaught x \<longleftrightarrow>
          truthy url \<and> requests_get e url 30 = Raises x \<and> (\<forall>msg. x \<noteq> RequestException msg))
    \<and> (response_status (fst (process_url e req w)) = Some 400 \<longleftrightarrow> \<not> truthy url)
    \<and> (response_status (fst (process_url e req w)) = Some 500 \<longleftrightarrow>
          truthy url \<and> (\<exists>msg. requests_get e url 30 = Raises (RequestException msg)))
    \<and> (response_status (fst (process_url e req w)) = Some 200 \<longleftrightarrow>
          truthy url \<and> (\<exists>r. requests_get e url 30 = Returns r))
    \<and> response_status (fst (process_url e req w)) \<in> {Some 200, Some 400, Some 500, None}"
proof (cases "truthy url")
  case False
  with assms show ?thesis
    by (simp add: process_url_falsy error_body_def)
next
  case True
  show ?thesis
  proof (cases "requests_get e url 30")
    case (Returns r)
    with True assms show ?thesis
      by (simp add: process_url_fetched success_body_def callback_payload_def
          http_response_package_def)
  next
    case (Raises x)
    show ?thesis
    proof (cases "\<exists>msg. x = RequestException msg")
      case True
      then obtain msg where "x = RequestException msg" by blast
      with Raises \<open>truthy url\<close> assms show ?thesis
        by (simp add: process_url_request_exception error_body_def)
    next
      case False
      then have other: "\<forall>msg. x \<noteq> RequestException msg" by blast
      have "process_url e req w =
          (Uncaught x, w\<lparr>requests_sent := requests_sent w @ [(url, 30)]\<rparr>)"
        using Raises \<open>truthy url\<close> assms other by (simp add: process_url_other_exception)
      with Raises \<open>truthy url\<close> other show ?thesis
        by auto
    qed
  qed
qed

text \<open>The scenario of the specification ends in the third way.\<close>

theorem four_outcomes_witness:
  "json (post (JObj [(''url'', ok_url), (''originalPrompt'', JStr ''find cats'')])) =
      Returns (JObj [(''url'', ok_url), (''originalPrompt'', JStr ''find cats'')])
   \<and> ok_url = dict_get [(''url'', ok_url), (''originalPrompt'', JStr ''find cats'')] ''url'' JNull
   \<and> truthy ok_url
   \<and> requests_get stub_env ok_url 30 = Returns ok_response
   \<and> process_url stub_env
        (post (JObj [(''url'', ok_url), (''originalPrompt'', JStr ''find cats'')])) world0 =
      (Response
         (JObj [(''message'', JStr ''URL processing initiated (simulated callback)''),
                (''payload_preview'',
                   JObj [(''automated_return'', JBool True),
                         (''original_prompt'', JStr ''find cats''),
                         (''timestamp'', JStr ''2024-01-01T00:00:00''),
                         (''status_metadata'', JStr ''Content gathering complete.''),
                         (''result_package'',
                            JObj [(''dataType'', JStr ''http_response''),
                                  (''data'',
                                     JObj [(''status_code'', JInt 200),
                                           (''headers'',
                                              JObj [(''Content-Type'', JStr ''application/json'')]),
                                           (''content'', JStr ''{\"x\":1}''),
                                           (''url'', ok_url)])])])]) 200,
       \<lparr>requests_sent = [(ok_url, 30)],
        stdout =
          [JObj [(''automated_return'', JBool True),
                 (''original_prompt'', JStr ''find cats''),
                 (''timestamp'', JStr ''2024-01-01T00:00:00''),
                 (''status_metadata'', JStr ''Content gathering complete.''),
                 (''result_package'',
                    JObj [(''dataType'', JStr ''http_response''),
                          (''data'',
                             JObj [(''status_code'', JInt 200),
                                   (''headers'',
                                      JObj [(''Content-Type'', JStr ''application/json'')]),
                                   (''content'', JStr ''{\"x\":1}''),
                                   (''url'', ok_url)])])]]\<rparr>)"
proof -
  have body: "json (post (JObj [(''url'', ok_url), (''originalPrompt'', JStr ''find cats'')])) =
      Returns (JObj [(''url'', ok_url), (''originalPrompt'', JStr ''find cats'')])"
    by (simp add: post_def)
  have url: "ok_url = dict_get [(''url'', ok_url), (''originalPrompt'', JStr ''find cats'')] ''url'' JNull"
    by (simp add: dict_get_def)
  note outcomes = four_outcomes [OF body url, of stub_env world0, THEN conjunct1]
  from outcomes truthy_urls(1) stub_env_answers(1)
  have "process_url stub_env
        (post (JObj [(''url'', ok_url), (''originalPrompt'', JStr ''find cats'')])) world0 =
      (Response
         (JObj [(''message'', JStr ''URL processing initiated (simulated callback)''),
                (''payload_preview'',
                   JObj [(''automated_return'', JBool True),
                         (''original_prompt'',
                            dict_get [(''url'', ok_url), (''originalPrompt'', JStr ''find cats'')]
                              ''originalPrompt'' JNull),
                         (''timestamp'', JStr (now_isoformat stub_env)),
                         (''status_metadata'', JStr ''Content gathering complete.''),
                         (''result_package'',
                            JObj [(''dataType'', JStr ''http_response''),
                                  (''data'',
                                     JObj [(''status_code'', JInt (status_code ok_response)),
                                           (''headers'',
                                              JObj (map (\<lambda>(k, v). (k, JStr v))
                                                (dict_of (headers ok_response)))),
                                           (''content'', JStr (response_text ok_response)),
                                           (''url'', ok_url)])])])]) 200,
       world0\<lparr>requests_sent := requests_sent world0 @ [(ok_url, 30)],
         stdout := stdout world0 @
          [JObj [(''automated_return'', JBool True),
                 (''original_prompt'',
                    dict_get [(''url'', ok_url), (''originalPrompt'', JStr ''find cats'')]
                      ''originalPrompt'' JNull),
                 (''timestamp'', JStr (now_isoformat stub_env)),
                 (''status_metadata'', JStr ''Content gathering complete.''),
                 (''result_package'',
                    JObj [(''dataType'', JStr ''http_response''),
                          (''data'',
                             JObj [(''status_code'', JInt (status_code ok_response)),
                                   (''headers'',
                                      JObj (map (\<lambda>(k, v). (k, JStr v))
                                        (dict_of (headers ok_response)))),
                                   (''content'', JStr (response_text ok_response)),
                                   (''url'', ok_url)])])]]\<rparr>)"
    by auto
  then have run: "process_url stub_env
        (post (JObj [(''url'', ok_url), (''originalPrompt'', JStr ''find cats'')])) world0 =
      (Response
         (JObj [(''message'', JStr ''URL processing initiated (simulated callback)''),
                (''payload_preview'',
                   JObj [(''automated_return'', JBool True),
                         (''original_prompt'', JStr ''find cats''),
                         (''timestamp'', JStr ''2024-01-01T00:00:00''),
                         (''status_metadata'', JStr ''Content gathering complete.''),
                         (''result_package'',
                            JObj [(''dataType'', JStr ''http_response''),
                                  (''data'',
                                     JObj [(''status_code'', JInt 200),
                                           (''headers'',
                                              JObj [(''Content-Type'', JStr ''application/json'')]),
                                           (''content'', JStr ''{\"x\":1}''),
                                           (''url'', ok_url)])])])]) 200,
       \<lparr>requests_sent = [(ok_url, 30)],
        stdout =
          [JObj [(''automated_return'', JBool True),
                 (''original_prompt'', JStr ''find cats''),
                 (''timestamp'', JStr ''2024-01-01T00:00:00''),
                 (''status_metadata'', JStr ''Content gathering complete.''),
                 (''result_package'',
                    JObj [(''dataType'', JStr ''http_response''),
                          (''data'',
                             JObj [(''status_code'', JInt 200),
                                   (''headers'',
                                      JObj [(''Content-Type'', JStr ''application/json'')]),
                                   (''content'', JStr ''{\"x\":1}''),
                                   (''url'', ok_url)])])]]\<rparr>)"
    by (simp add: dict_get_def stub_env_def ok_response_def dict_of_def world0_def)
  from body url truthy_urls(1) stub_env_answers(1) run show ?thesis
    by (intro conjI)
qed

text \<open>
  A request with a JSON object as its body and a well-formed URL that ends in none of
  the three answers: the host of the URL has an empty label, the fetch raises an
  exception that is no \<^verbatim>\<open>RequestException\<close>, and the exception leaves the handler.
\<close>

theorem escaping_exception_counterexample:
  "json (post (JObj [(''url'', bad_host_url), (''originalPrompt'', JStr ''find cats'')])) =
      Returns (JObj [(''url'', bad_host_url), (''originalPrompt'', JStr ''find cats'')])
   \<and> fst (process_url stub_env
        (post (JObj [(''url'', bad_host_url), (''originalPrompt'', JStr ''find cats'')])) world0) =
      Uncaught (OtherException ''LocationParseError'')
   \<and> response_status (fst (process_url stub_env
        (post (JObj [(''url'', bad_host_url), (''originalPrompt'', JStr ''find cats'')])) world0)) =
      None
   \<and> response_status (fst (process_url stub_env
        (post (JObj [(''url'', bad_host_url), (''originalPrompt'', JStr ''find cats'')])) world0))
      \<noteq> Some 200
   \<and> response_status (fst (process_url stub_env
        (post (JObj [(''url'', bad_host_url), (''originalPrompt'', JStr ''find cats'')])) world0))
      \<noteq> Some 400
   \<and> response_status (fst (process_url stub_env
        (post (JObj [(''url'', bad_host_url), (''originalPrompt'', JStr ''find cats'')])) world0))
      \<noteq> Some 500"
  by (simp add: process_url_def Let_def post_def dict_get_def stub_env_answers truthy_urls)

end
